theory Spec2Isabelle
  imports Complex_Main "HOL-Library.Word"
begin

unbundle bit_operations_syntax

section \<open>Data model of the SHTCx driver\<close>

text \<open>
  The embedding follows \<^verbatim>\<open>esphome/components/shtcx/shtcx.cpp\<close>. Machine integers
  are words of the width the source declares (\<^verbatim>\<open>uint8_t\<close>, \<^verbatim>\<open>uint16_t\<close>); where C++
  promotes to \<^verbatim>\<open>int\<close> before an operation the model computes in 32 bits and truncates at
  the assignment, as the compiler does.
\<close>

datatype SHTCXType = SHTCX_TYPE_SHTC3 | SHTCX_TYPE_SHTC1 | SHTCX_TYPE_UNKNOWN

text \<open>
  A \<^verbatim>\<open>float\<close> as the driver produces it: the not-a-number marker or a number. The two
  decoding formulas are evaluated over the reals; lemma \<open>decode_exact_in_binary32\<close> below
  shows that every intermediate result is a dyadic rational with a significand below
  \<open>2 ^ 24\<close>, so single-precision evaluation rounds nowhere.
\<close>

datatype cfloat = NAN | Num real

text \<open>What the driver does on the two-wire bus, in order.\<close>

datatype bus_event =
    Write_Byte "8 word" "8 word"
  | Read_Bytes nat
  | Delay_Microseconds nat

text \<open>Indexing a \<^verbatim>\<open>std::vector\<close> or an array outside its bounds is undefined in C++.\<close>

datatype error = Index_Out_Of_Bounds

text \<open>
  The component together with its collaborators. The first six fields are the members of
  \<^verbatim>\<open>SHTCXComponent\<close> and of its base class; a sink is \<open>None\<close> when the pointer is
  \<^verbatim>\<open>nullptr\<close> and otherwise holds the values published to it so far. A name that ends
  with an underscore in the source (\<^verbatim>\<open>type_\<close>, \<^verbatim>\<open>read_data_\<close>) ends with a prime here. \<open>timeouts\<close> are the
  delays of the continuations registered with the scheduler. The bus is an oracle: the
  outcome of the \<open>k\<close>-th bus transaction is \<open>write_result k\<close> when the driver writes and
  \<open>read_result k\<close> when it reads (\<open>None\<close> for a transport error, otherwise the bytes the
  device sends).
\<close>

record state =
  type' :: SHTCXType
  sensor_id' :: "16 word"
  temperature_sensor' :: "cfloat list option"
  humidity_sensor' :: "cfloat list option"
  status_warning :: bool
  failed :: bool
  timeouts :: "nat list"
  write_result :: "nat \<Rightarrow> bool"
  read_result :: "nat \<Rightarrow> 8 word list option"
  bus_count :: nat
  bus_trace :: "bus_event list"

definition SHTCX_COMMAND_SLEEP :: "16 word" where
  "SHTCX_COMMAND_SLEEP = 0xB098"

definition SHTCX_COMMAND_WAKEUP :: "16 word" where
  "SHTCX_COMMAND_WAKEUP = 0x3517"

definition SHTCX_COMMAND_READ_ID_REGISTER :: "16 word" where
  "SHTCX_COMMAND_READ_ID_REGISTER = 0xEFC8"

definition SHTCX_COMMAND_SOFT_RESET :: "16 word" where
  "SHTCX_COMMAND_SOFT_RESET = 0x805D"

definition SHTCX_COMMAND_POLLING_H :: "16 word" where
  "SHTCX_COMMAND_POLLING_H = 0x7866"

section \<open>Collaborators\<close>

text \<open>
  Modelled from the spec: the bus transport (\<^verbatim>\<open>I2CDevice::write_byte\<close> and
  \<^verbatim>\<open>I2CDevice::read\<close>), which is not part of the driver's file. ``provides
  write(register_byte, payload_byte) and read(buffer, length); this driver treats any
  non-OK code as failure''. A read that succeeds fills the zero-initialised buffer of
  \<open>num_bytes\<close> bytes with the bytes of the reply.
\<close>

definition write_byte :: "8 word \<Rightarrow> 8 word \<Rightarrow> state \<Rightarrow> bool \<times> state" where
  "write_byte a_register data s =
     (write_result s (bus_count s),
      s\<lparr>bus_count := Suc (bus_count s),
        bus_trace := bus_trace s @ [Write_Byte a_register data]\<rparr>)"

definition fill_buffer :: "nat \<Rightarrow> 8 word list \<Rightarrow> 8 word list" where
  "fill_buffer num_bytes bytes = take num_bytes (bytes @ replicate num_bytes 0)"

definition read :: "nat \<Rightarrow> state \<Rightarrow> 8 word list option \<times> state" where
  "read num_bytes s =
     (map_option (fill_buffer num_bytes) (read_result s (bus_count s)),
      s\<lparr>bus_count := Suc (bus_count s),
        bus_trace := bus_trace s @ [Read_Bytes num_bytes]\<rparr>)"

definition delayMicroseconds :: "nat \<Rightarrow> state \<Rightarrow> state" where
  "delayMicroseconds us s = s\<lparr>bus_trace := bus_trace s @ [Delay_Microseconds us]\<rparr>"

text \<open>
  Modelled from the spec: the status flags of the component base class
  (\<^verbatim>\<open>status_has_warning\<close>, \<^verbatim>\<open>status_set_warning\<close>, \<^verbatim>\<open>status_clear_warning\<close>,
  \<^verbatim>\<open>mark_failed\<close>). ``HealthStatus: boolean communication warning flag owned by the
  controller''; ``the component enters a permanently-failed state''.
\<close>

definition status_has_warning :: "state \<Rightarrow> bool" where
  "status_has_warning s = status_warning s"

definition status_set_warning :: "state \<Rightarrow> state" where
  "status_set_warning s = s\<lparr>status_warning := True\<rparr>"

definition status_clear_warning :: "state \<Rightarrow> state" where
  "status_clear_warning s = s\<lparr>status_warning := False\<rparr>"

definition mark_failed :: "state \<Rightarrow> state" where
  "mark_failed s = s\<lparr>failed := True\<rparr>"

text \<open>
  Modelled from the spec: the scheduler (\<^verbatim>\<open>set_timeout\<close>) and the sinks
  (\<^verbatim>\<open>publish_state\<close>). ``after(duration_ms, continuation): fire-once, no-cancel'';
  ``publish(float) where float may be a not-a-number sentinel''. The driver registers one
  kind of continuation only, so a pending one is recorded by its delay.
\<close>

definition set_timeout :: "nat \<Rightarrow> state \<Rightarrow> state" where
  "set_timeout ms s = s\<lparr>timeouts := timeouts s @ [ms]\<rparr>"

definition publish_state :: "cfloat \<Rightarrow> cfloat list \<Rightarrow> cfloat list" where
  "publish_state v published = published @ [v]"

section \<open>The driver\<close>

subsection \<open>Commands\<close>

definition write_command' :: "16 word \<Rightarrow> state \<Rightarrow> bool \<times> state" where
  "write_command' command s =
     write_byte (ucast (drop_bit 8 command)) (ucast (command AND 0xFF)) s"

definition soft_reset :: "state \<Rightarrow> state" where
  "soft_reset s = delayMicroseconds 200 (snd (write_command' SHTCX_COMMAND_SOFT_RESET s))"

definition sleep :: "state \<Rightarrow> state" where
  "sleep s = snd (write_command' SHTCX_COMMAND_SLEEP s)"

definition wake_up :: "state \<Rightarrow> state" where
  "wake_up s = delayMicroseconds 200 (snd (write_command' SHTCX_COMMAND_WAKEUP s))"

subsection \<open>Checksum\<close>

text \<open>
  One pass of the loop body of \<^verbatim>\<open>sht_crc\<close>. \<^verbatim>\<open>crc << 1\<close> and the exclusive-or with
  \<^verbatim>\<open>0x131\<close> are computed on the promoted \<^verbatim>\<open>int\<close>; the assignment to the \<^verbatim>\<open>uint8_t\<close>
  keeps the low eight bits.
\<close>

definition crc_shift :: "8 word \<Rightarrow> 8 word" where
  "crc_shift crc =
     (if crc AND 0x80 \<noteq> 0
      then ucast (push_bit 1 (ucast crc :: 32 word) XOR 0x131)
      else ucast (push_bit 1 (ucast crc :: 32 word)))"

text \<open>\<^verbatim>\<open>for (bit = 8; bit > 0; --bit)\<close>, by the number of passes left.\<close>

fun crc_loop :: "nat \<Rightarrow> 8 word \<Rightarrow> 8 word" where
  "crc_loop 0 crc = crc"
| "crc_loop (Suc n) crc = crc_loop n (crc_shift crc)"

definition sht_crc :: "8 word \<Rightarrow> 8 word \<Rightarrow> 8 word" where
  "sht_crc data1 data2 = crc_loop 8 (crc_loop 8 (0xFF XOR data1) XOR data2)"

text \<open>
  The checksum as the specification words it: initial value \<open>0xFF\<close>; for each of the two
  bytes in order, exclusive-or the byte into the running value, then eight times shift
  left by one and exclusive-or with \<open>0x31\<close> when the bit shifted out was 1.
\<close>

definition crc8_step :: "8 word \<Rightarrow> 8 word" where
  "crc8_step crc = (if bit crc 7 then push_bit 1 crc XOR 0x31 else push_bit 1 crc)"

definition crc8 :: "8 word \<Rightarrow> 8 word \<Rightarrow> 8 word" where
  "crc8 byte_a byte_b =
     fold (\<lambda>byte crc. (crc8_step ^^ 8) (crc XOR byte)) [byte_a, byte_b] 0xFF"

subsection \<open>Frame reader\<close>

text \<open>
  The loop of \<^verbatim>\<open>read_data_\<close> from index \<open>i\<close> on. \<open>j\<close> is a \<^verbatim>\<open>uint8_t\<close>, so \<open>3 * i\<close>
  wraps at 256. \<open>data\<close> is the caller's array; it is written word by word, so the words
  before a bad group stay written when the function returns \<open>false\<close>.
\<close>

function read_data_loop ::
  "8 word list \<Rightarrow> 16 word list \<Rightarrow> nat \<Rightarrow> nat \<Rightarrow> error + bool \<times> 16 word list" where
  "read_data_loop buf data len i =
     (if i < len then
        (let j = (3 * i) mod 256 in
         if length buf \<le> j + 2 then Inl Index_Out_Of_Bounds
         else
           (let crc = sht_crc (buf ! j) (buf ! (j + 1)) in
            if crc \<noteq> buf ! (j + 2) then Inr (False, data)
            else if length data \<le> i then Inl Index_Out_Of_Bounds
            else read_data_loop buf
                   (data[i := push_bit 8 (ucast (buf ! j)) OR ucast (buf ! (j + 1))])
                   len (Suc i)))
      else Inr (True, data))"
  by pat_completeness auto
termination
  by (relation "measure (\<lambda>(buf, data, len, i). len - i)") auto

declare read_data_loop.simps [simp del]

text \<open>
  \<^verbatim>\<open>num_bytes\<close> is a \<^verbatim>\<open>uint8_t\<close>: \<open>len * 3\<close> is kept modulo 256.
\<close>

definition read_data' ::
  "16 word list \<Rightarrow> 8 word \<Rightarrow> state \<Rightarrow> (error + bool \<times> 16 word list) \<times> state" where
  "read_data' data len s =
     (let num_bytes = (unat len * 3) mod 256 in
      case read num_bytes s of
        (None, s') \<Rightarrow> (Inr (False, data), s')
      | (Some buf, s') \<Rightarrow> (read_data_loop buf data (unat len) 0, s'))"

subsection \<open>Device identity\<close>

text \<open>
  \<^verbatim>\<open>SHTCXComponent::setup\<close>. The local \<^verbatim>\<open>device_id_register\<close> is uninitialised in the
  source and is only read after \<^verbatim>\<open>read_data_\<close> has written it; it starts as 0 here
  (lemma \<open>read_data_one_word\<close>: a successful read does not depend on what the array
  held). The log lines are left out. (\<open>setup\<close> alone is a command name of Isabelle,
  hence the prime.)
\<close>

definition setup' :: "state \<Rightarrow> error + state" where
  "setup' s =
     (let s = wake_up s;
          s = soft_reset s
      in case write_command' SHTCX_COMMAND_READ_ID_REGISTER s of
           (ok, s) \<Rightarrow>
             if \<not> ok then Inr (mark_failed s)
             else
               (case read_data' [0] 1 s of
                  (Inl e, s) \<Rightarrow> Inl e
                | (Inr (ok, data), s) \<Rightarrow>
                    if \<not> ok then Inr (mark_failed s)
                    else
                      (let device_id_register = data ! 0;
                           s = s\<lparr>sensor_id' := device_id_register\<rparr>
                       in if device_id_register AND 0x3F = 0x07 then
                            (if device_id_register AND 0x800 \<noteq> 0
                             then Inr (s\<lparr>type' := SHTCX_TYPE_SHTC3\<rparr>)
                             else Inr (s\<lparr>type' := SHTCX_TYPE_SHTC1\<rparr>))
                          else Inr (s\<lparr>type' := SHTCX_TYPE_UNKNOWN\<rparr>))))"

subsection \<open>Measurement cycle\<close>

text \<open>\<^verbatim>\<open>SHTCXComponent::update\<close>, up to and including the registration of the timeout.\<close>

definition update :: "state \<Rightarrow> state" where
  "update s =
     (let s = (if status_has_warning s then soft_reset s else s);
          s = (if type' s \<noteq> SHTCX_TYPE_SHTC1 then wake_up s else s)
      in case write_command' SHTCX_COMMAND_POLLING_H s of
           (ok, s) \<Rightarrow>
             if \<not> ok then
               (let s = s\<lparr>temperature_sensor' :=
                          map_option (publish_state NAN) (temperature_sensor' s)\<rparr>;
                    s = s\<lparr>humidity_sensor' :=
                          map_option (publish_state NAN) (humidity_sensor' s)\<rparr>
                in status_set_warning s)
             else set_timeout 50 s)"

text \<open>
  The continuation that \<^verbatim>\<open>update\<close> hands to \<^verbatim>\<open>set_timeout\<close> (lines 89 to 110), run by
  the scheduler once the delay has passed. \<^verbatim>\<open>raw_data\<close> is uninitialised in the source
  and read only after a successful \<^verbatim>\<open>read_data_\<close>.
\<close>

definition update_completion :: "state \<Rightarrow> error + state" where
  "update_completion s =
     (case read_data' [0, 0] 2 s of
        (Inl e, s) \<Rightarrow> Inl e
      | (Inr (ok, raw_data), s) \<Rightarrow>
          (let (temperature, humidity, s) =
                 (if \<not> ok then (NAN, NAN, status_set_warning s)
                  else (Num (175 * real (unat (raw_data ! 0)) / 65536 - 45),
                        Num (100 * real (unat (raw_data ! 1)) / 65536),
                        s));
               s = s\<lparr>temperature_sensor' :=
                     map_option (publish_state temperature) (temperature_sensor' s)\<rparr>;
               s = s\<lparr>humidity_sensor' :=
                     map_option (publish_state humidity) (humidity_sensor' s)\<rparr>;
               s = status_clear_warning s
           in if type' s \<noteq> SHTCX_TYPE_SHTC1 then Inr (sleep s) else Inr s))"

subsection \<open>Frames as the specification describes them\<close>

text \<open>
  A response frame of \<open>n\<close> words is \<open>n\<close> groups of three bytes \<open>(hi, lo, crc)\<close>; a
  group is valid when its checksum byte is the checksum of its two data bytes, and it
  carries the word \<open>(hi << 8) | lo\<close>.
\<close>

definition frame_group :: "8 word list \<Rightarrow> nat \<Rightarrow> 8 word \<times> 8 word \<times> 8 word" where
  "frame_group frame i = (frame ! (3 * i), frame ! (3 * i + 1), frame ! (3 * i + 2))"

definition group_valid :: "8 word \<times> 8 word \<times> 8 word \<Rightarrow> bool" where
  "group_valid g = (case g of (hi, lo, crc) \<Rightarrow> sht_crc hi lo = crc)"

definition group_word :: "8 word \<times> 8 word \<times> 8 word \<Rightarrow> 16 word" where
  "group_word g = (case g of (hi, lo, crc) \<Rightarrow> push_bit 8 (ucast hi) OR ucast lo)"

definition frame_valid :: "nat \<Rightarrow> 8 word list \<Rightarrow> bool" where
  "frame_valid n frame = list_all (\<lambda>i. group_valid (frame_group frame i)) [0..<n]"

definition frame_words :: "nat \<Rightarrow> 8 word list \<Rightarrow> 16 word list" where
  "frame_words n frame = map (\<lambda>i. group_word (frame_group frame i)) [0..<n]"

text \<open>
  The frame reader's contract in the specification: read \<open>3 * n\<close> bytes; nothing when the
  transport fails or when any group has a bad checksum, otherwise the \<open>n\<close> words.
\<close>

definition read_words :: "nat \<Rightarrow> 8 word list option \<Rightarrow> 16 word list option" where
  "read_words n reply =
     (case reply of
        None \<Rightarrow> None
      | Some bytes \<Rightarrow>
          (let frame = fill_buffer (3 * n) bytes
           in if frame_valid n frame then Some (frame_words n frame) else None))"

subsection \<open>The poll command within a cycle\<close>

text \<open>
  \<^verbatim>\<open>update\<close> sends the poll command after an optional soft reset and an optional
  wake-up, so the poll is bus transaction number \<open>poll_index s\<close> and the bus has seen
  \<open>poll_trace s\<close> once it is sent.
\<close>

definition poll_index :: "state \<Rightarrow> nat" where
  "poll_index s =
     bus_count s + (if status_warning s then 1 else 0) +
     (if type' s \<noteq> SHTCX_TYPE_SHTC1 then 1 else 0)"

definition poll_trace :: "state \<Rightarrow> bus_event list" where
  "poll_trace s =
     bus_trace s @
     (if status_warning s then [Write_Byte 0x80 0x5D, Delay_Microseconds 200] else []) @
     (if type' s \<noteq> SHTCX_TYPE_SHTC1
      then [Write_Byte 0x35 0x17, Delay_Microseconds 200] else []) @
     [Write_Byte 0x78 0x66]"

subsection \<open>A component on a scripted bus\<close>

text \<open>
  A component of the given variant and warning flag with both sinks attached, nothing
  published, nothing scheduled and no bus traffic yet, on a bus that answers as the two
  scripts say.
\<close>

definition component ::
  "SHTCXType \<Rightarrow> bool \<Rightarrow> (nat \<Rightarrow> bool) \<Rightarrow> (nat \<Rightarrow> 8 word list option) \<Rightarrow> state" where
  "component t w wr rd =
     \<lparr>type' = t, sensor_id' = 0, temperature_sensor' = Some [], humidity_sensor' = Some [],
      status_warning = w, failed = False, timeouts = [],
      write_result = wr, read_result = rd, bus_count = 0, bus_trace = []\<rparr>"

section \<open>The checksum\<close>

lemma crc_top_bit: "(crc AND 0x80 \<noteq> 0) = bit crc 7" for crc :: "8 word"
proof -
  have m: "(0x80 :: 8 word) = push_bit 7 1" by simp
  have "(crc AND push_bit 7 1 \<noteq> 0) = (\<exists>n<8. bit crc n \<and> 7 \<le> n)"
    by (simp add: bit_eq_iff bit_simps del: push_bit_of_1)
  also have "\<dots> = bit crc 7"
  proof
    assume "\<exists>n<8. bit crc n \<and> 7 \<le> n"
    then obtain n where n: "n < 8" "bit crc n" "7 \<le> n" by blast
    then have "n = 7" by simp
    with n show "bit crc 7" by simp
  next
    assume "bit crc 7"
    then show "\<exists>n<8. bit crc n \<and> 7 \<le> n" by (intro exI [of _ 7]) simp
  qed
  finally show ?thesis unfolding m .
qed

lemma truncate_xor: "(ucast (x XOR y :: 32 word) :: 8 word) = ucast x XOR ucast y"
  by (rule bit_word_eqI) (simp add: bit_simps)

lemma truncate_shift:
  "(ucast (push_bit n (ucast (c :: 8 word) :: 32 word)) :: 8 word) = push_bit n c"
  by (rule bit_word_eqI) (auto simp add: bit_simps)

lemma truncate_poly: "(ucast (0x131 :: 32 word) :: 8 word) = 0x31"
  by simp

lemma crc_shift_eq: "crc_shift crc = crc8_step crc"
  unfolding crc_shift_def crc8_step_def crc_top_bit truncate_xor truncate_shift truncate_poly
  by (rule refl)

lemma crc_loop_eq: "crc_loop n crc = (crc8_step ^^ n) crc"
  by (induction n arbitrary: crc) (simp_all add: crc_shift_eq funpow_swap1)

lemma sht_crc_BEEF: "sht_crc 0xBE 0xEF = 0x92"
  by code_simp

text \<open>
  C2. \<^verbatim>\<open>sht_crc(a, b)\<close> is the CRC-8 with polynomial \<open>0x31\<close> and initial value \<open>0xFF\<close>
  as the specification describes it (byte by byte: exclusive-or the byte in, then eight
  shift-and-conditional-exclusive-or steps), and it gives the data sheet's check digit
  \<open>0x92\<close> for the bytes \<open>0xBE\<close>, \<open>0xEF\<close>.
\<close>

theorem sht_crc_is_crc8:
  "sht_crc a b = crc8 a b \<and> sht_crc 0xBE 0xEF = 0x92"
proof
  show "sht_crc a b = crc8 a b"
    by (simp add: sht_crc_def crc8_def crc_loop_eq)
  show "sht_crc 0xBE 0xEF = 0x92"
    by (rule sht_crc_BEEF)
qed

section \<open>The frame reader\<close>

lemma read_data_loop_ok:
  "3 * len \<le> 255 \<Longrightarrow> length buf = 3 * len \<Longrightarrow> len \<le> length data \<Longrightarrow> i \<le> len \<Longrightarrow>
   list_all (\<lambda>k. group_valid (frame_group buf k)) [i..<len] \<Longrightarrow>
   read_data_loop buf data len i =
     Inr (True, take i data @ map (\<lambda>k. group_word (frame_group buf k)) [i..<len] @ drop len data)"
proof (induction buf data len i rule: read_data_loop.induct)
  case (1 buf data len i)
  show ?case
  proof (cases "i < len")
    case False
    with 1 have "i = len" by simp
    then show ?thesis by (simp add: read_data_loop.simps [of buf data len len])
  next
    case True
    then have j: "(3 * i) mod 256 = 3 * i" using 1 by simp
    have inb: "\<not> length buf \<le> 3 * i + 2" using True 1 by simp
    have up: "[i..<len] = i # [Suc i..<len]" using True by (simp add: upt_conv_Cons)
    have v: "sht_crc (buf ! (3 * i)) (buf ! (3 * i + 1)) = buf ! (3 * i + 2)"
      and rest: "list_all (\<lambda>k. group_valid (frame_group buf k)) [Suc i..<len]"
      using "1.prems"(5) unfolding up by (simp_all add: group_valid_def frame_group_def)
    have d: "\<not> length data \<le> i" using True 1 by simp
    let ?w = "push_bit 8 (ucast (buf ! (3 * i))) OR ucast (buf ! (3 * i + 1)) :: 16 word"
    have "read_data_loop buf data len i = read_data_loop buf (data[i := ?w]) len (Suc i)"
      using True j inb v d by (subst read_data_loop.simps) (simp add: Let_def)
    also have "\<dots> = Inr (True, take (Suc i) (data[i := ?w]) @
        map (\<lambda>k. group_word (frame_group buf k)) [Suc i..<len] @ drop len (data[i := ?w]))"
      using "1.IH" [OF True, of "(3 * i) mod 256" "sht_crc (buf ! (3 * i)) (buf ! (3 * i + 1))"]
        True j inb v d 1(2-4) rest by simp
    also have "take (Suc i) (data[i := ?w]) = take i data @ [?w]"
      using d by (simp add: take_Suc_conv_app_nth)
    also have "drop len (data[i := ?w]) = drop len data"
      using True by simp
    finally show ?thesis
      unfolding up by (simp add: group_word_def frame_group_def)
  qed
qed

lemma read_data_loop_bad:
  "3 * len \<le> 255 \<Longrightarrow> length buf = 3 * len \<Longrightarrow> len \<le> length data \<Longrightarrow> i \<le> len \<Longrightarrow>
   \<not> list_all (\<lambda>k. group_valid (frame_group buf k)) [i..<len] \<Longrightarrow>
   \<exists>d. read_data_loop buf data len i = Inr (False, d)"
proof (induction buf data len i rule: read_data_loop.induct)
  case (1 buf data len i)
  show ?case
  proof (cases "i < len")
    case False
    with 1 have "i = len" by simp
    with "1.prems"(5) show ?thesis by simp
  next
    case True
    then have j: "(3 * i) mod 256 = 3 * i" using 1 by simp
    have inb: "\<not> length buf \<le> 3 * i + 2" using True 1 by simp
    have up: "[i..<len] = i # [Suc i..<len]" using True by (simp add: upt_conv_Cons)
    have d: "\<not> length data \<le> i" using True 1 by simp
    show ?thesis
    proof (cases "sht_crc (buf ! (3 * i)) (buf ! (3 * i + 1)) = buf ! (3 * i + 2)")
      case False
      then show ?thesis
        using True j inb by (subst read_data_loop.simps) (simp add: Let_def)
    next
      case v: True
      let ?w = "push_bit 8 (ucast (buf ! (3 * i))) OR ucast (buf ! (3 * i + 1)) :: 16 word"
      have rest: "\<not> list_all (\<lambda>k. group_valid (frame_group buf k)) [Suc i..<len]"
        using "1.prems"(5) v unfolding up by (simp add: group_valid_def frame_group_def)
      have "read_data_loop buf data len i = read_data_loop buf (data[i := ?w]) len (Suc i)"
        using True j inb v d by (subst read_data_loop.simps) (simp add: Let_def)
      moreover have "\<exists>d. read_data_loop buf (data[i := ?w]) len (Suc i) = Inr (False, d)"
        using "1.IH" [OF True, of "(3 * i) mod 256" "sht_crc (buf ! (3 * i)) (buf ! (3 * i + 1))"]
          True j inb v d 1(2-4) rest by simp
      ultimately show ?thesis by simp
    qed
  qed
qed

lemma length_fill_buffer: "length (fill_buffer n bytes) = n"
  by (simp add: fill_buffer_def)

lemma list3: "length xs = 3 \<Longrightarrow> \<exists>a b c. xs = [a, b, c]"
  by (auto simp add: length_Suc_conv eval_nat_numeral)

lemma list6: "length xs = 6 \<Longrightarrow> \<exists>a b c d e f. xs = [a, b, c, d, e, f]"
  by (auto simp add: length_Suc_conv eval_nat_numeral)

lemma read_data_loop_1:
  "read_data_loop [hi, lo, c] [d0] (Suc 0) 0 =
     (if sht_crc hi lo \<noteq> c then Inr (False, [d0])
      else Inr (True, [push_bit 8 (ucast hi) OR ucast lo]))"
  by (simp add: read_data_loop.simps [of _ _ _ 0] read_data_loop.simps [of _ _ _ "Suc 0"] Let_def)

lemma read_data_loop_2:
  "read_data_loop [hi0, lo0, c0, hi1, lo1, c1] [d0, d1] (Suc (Suc 0)) 0 =
     (if sht_crc hi0 lo0 \<noteq> c0 then Inr (False, [d0, d1])
      else if sht_crc hi1 lo1 \<noteq> c1
        then Inr (False, [push_bit 8 (ucast hi0) OR ucast lo0, d1])
      else Inr (True, [push_bit 8 (ucast hi0) OR ucast lo0,
                       push_bit 8 (ucast hi1) OR ucast lo1]))"
  by (simp add: read_data_loop.simps [of _ _ _ 0] read_data_loop.simps [of _ _ _ "Suc 0"]
        read_data_loop.simps [of _ _ _ "Suc (Suc 0)"]  Let_def)

lemma frame_1:
  "frame_valid (Suc 0) [hi, lo, c] = (sht_crc hi lo = c)"
  "frame_words (Suc 0) [hi, lo, c] = [push_bit 8 (ucast hi) OR ucast lo]"
  by (simp_all add: frame_valid_def frame_words_def frame_group_def group_valid_def group_word_def)

lemma frame_2:
  "frame_valid (Suc (Suc 0)) [hi0, lo0, c0, hi1, lo1, c1] = (sht_crc hi0 lo0 = c0 \<and> sht_crc hi1 lo1 = c1)"
  "frame_words (Suc (Suc 0)) [hi0, lo0, c0, hi1, lo1, c1] =
     [push_bit 8 (ucast hi0) OR ucast lo0, push_bit 8 (ucast hi1) OR ucast lo1]"
  by (simp_all add: frame_valid_def frame_words_def frame_group_def group_valid_def group_word_def)

lemma read_data_one_word:
  "read_data' [d0] 1 s =
     (case read_words 1 (read_result s (bus_count s)) of
        None \<Rightarrow> (Inr (False, [d0]), snd (read 3 s))
      | Some ws \<Rightarrow> (Inr (True, ws), snd (read 3 s)))"
proof (cases "read_result s (bus_count s)")
  case None
  then show ?thesis by (simp add: read_data'_def read_words_def read_def)
next
  case (Some bytes)
  obtain a b c where f: "fill_buffer 3 bytes = [a, b, c]"
    using list3 [OF length_fill_buffer [of 3 bytes]] by blast
  show ?thesis
    by (simp add: read_data'_def read_words_def read_def Some f read_data_loop_1 frame_1)
qed

lemma read_data_two_words:
  "\<exists>d. read_data' [d0, d1] 2 s =
     (case read_words 2 (read_result s (bus_count s)) of
        None \<Rightarrow> (Inr (False, d), snd (read 6 s))
      | Some ws \<Rightarrow> (Inr (True, ws), snd (read 6 s)))"
proof (cases "read_result s (bus_count s)")
  case None
  then show ?thesis by (simp add: read_data'_def read_words_def read_def)
next
  case (Some bytes)
  obtain a b c d e f where f: "fill_buffer 6 bytes = [a, b, c, d, e, f]"
    using list6 [OF length_fill_buffer [of 6 bytes]] by blast
  have n: "(2::nat) = Suc (Suc 0)" by simp
  show ?thesis
    by (simp add: read_data'_def read_words_def read_def Some f) (simp add: n read_data_loop_2 frame_2 read_def)
qed

lemma read_data_two_words_ok:
  "read_result s (bus_count s) = Some [hi0, lo0, sht_crc hi0 lo0, hi1, lo1, sht_crc hi1 lo1] \<Longrightarrow>
   fst (read_data' [0, 0] 2 s) =
     Inr (True, [push_bit 8 (ucast hi0) OR ucast lo0, push_bit 8 (ucast hi1) OR ucast lo1])"
proof -
  have n: "(2::nat) = Suc (Suc 0)" by simp
  assume "read_result s (bus_count s) = Some [hi0, lo0, sht_crc hi0 lo0, hi1, lo1, sht_crc hi1 lo1]"
  then show ?thesis
    by (simp add: read_data'_def read_def fill_buffer_def) (simp add: n read_data_loop_2)
qed

lemma crc_vectors:
  "sht_crc 0 0 = 0x81" "sht_crc 0x80 0 = 0xA2" "sht_crc 0x08 0x87 = 0x5B"
  by code_simp+

lemma read_returns_requested_length:
  "fst (read num_bytes s) = Some buf \<Longrightarrow> length buf = num_bytes"
  by (auto simp add: read_def length_fill_buffer)

text \<open>
  C3. For every word count \<open>n\<close> and every buffer of \<open>3 * n\<close> bytes that the transport
  returns to \<^verbatim>\<open>read_data_\<close>, the function returns true if and only if every group
  \<open>(hi, lo, crc)\<close> satisfies \<open>sht_crc hi lo = crc\<close>; one bad group anywhere makes it
  return false; on success the \<open>i\<close>-th word written is \<open>(hi\<^sub>i << 8) | lo\<^sub>i\<close>. (The
  transport returns as many bytes as \<^verbatim>\<open>num_bytes\<close> asks for, lemma
  \<open>read_returns_requested_length\<close>; the driver calls \<^verbatim>\<open>read_data_\<close> with 1 and 2.)
\<close>

theorem read_data_all_or_nothing:
  "fst (read ((unat n * 3) mod 256) s) = Some frame \<Longrightarrow> length frame = 3 * unat n \<Longrightarrow>
   unat n \<le> length data \<Longrightarrow>
   (frame_valid (unat n) frame \<longrightarrow>
      fst (read_data' data n s) =
        Inr (True, frame_words (unat n) frame @ drop (unat n) data)) \<and>
   (\<not> frame_valid (unat n) frame \<longrightarrow>
      (\<exists>d. fst (read_data' data n s) = Inr (False, d)))"
proof -
  assume reply: "fst (read ((unat n * 3) mod 256) s) = Some frame"
    and len: "length frame = 3 * unat n" and data: "unat n \<le> length data"
  from read_returns_requested_length [OF reply] len
  have "(unat n * 3) mod 256 = 3 * unat n" by simp
  then have b: "3 * unat n \<le> 255"
    using mod_less_divisor [of 256 "unat n * 3"] by (simp add: mult.commute)
  have rd: "fst (read_data' data n s) = read_data_loop frame data (unat n) 0"
    using reply by (cases "read ((unat n * 3) mod 256) s") (simp add: read_data'_def)
  show ?thesis
  proof (intro conjI impI)
    assume "frame_valid (unat n) frame"
    then show "fst (read_data' data n s) =
        Inr (True, frame_words (unat n) frame @ drop (unat n) data)"
      unfolding rd frame_valid_def frame_words_def
      using read_data_loop_ok [OF b len data, of 0] by simp
  next
    assume "\<not> frame_valid (unat n) frame"
    then show "\<exists>d. fst (read_data' data n s) = Inr (False, d)"
      unfolding rd frame_valid_def
      using read_data_loop_bad [OF b len data, of 0] by simp
  qed
qed

theorem read_data_all_or_nothing_witness:
  "fst (read ((unat (2 :: 8 word) * 3) mod 256)
         (component SHTCX_TYPE_SHTC3 False (\<lambda>k. True)
            (\<lambda>k. Some [0xBE, 0xEF, 0x92, 0x00, 0x00, 0x81]))) =
     Some [0xBE, 0xEF, 0x92, 0x00, 0x00, 0x81] \<and>
   length [0xBE, 0xEF, 0x92, 0x00, 0x00, 0x81 :: 8 word] = 3 * unat (2 :: 8 word) \<and>
   unat (2 :: 8 word) \<le> length [0, 0 :: 16 word] \<and>
   frame_valid 2 [0xBE, 0xEF, 0x92, 0x00, 0x00, 0x81] \<and>
   fst (read_data' [0, 0] 2 (component SHTCX_TYPE_SHTC3 False (\<lambda>k. True)
       (\<lambda>k. Some [0xBE, 0xEF, 0x92, 0x00, 0x00, 0x81]))) = Inr (True, [0xBEEF, 0x0000]) \<and>
   fst (read ((unat (2 :: 8 word) * 3) mod 256)
         (component SHTCX_TYPE_SHTC3 False (\<lambda>k. True)
            (\<lambda>k. Some [0xBE, 0xEF, 0x92, 0x00, 0x00, 0x80]))) =
     Some [0xBE, 0xEF, 0x92, 0x00, 0x00, 0x80] \<and>
   \<not> frame_valid 2 [0xBE, 0xEF, 0x92, 0x00, 0x00, 0x80] \<and>
   (\<exists>d. fst (read_data' [0, 0] 2 (component SHTCX_TYPE_SHTC3 False (\<lambda>k. True)
       (\<lambda>k. Some [0xBE, 0xEF, 0x92, 0x00, 0x00, 0x80]))) = Inr (False, d))"
proof -
  let ?f = "[0xBE, 0xEF, 0x92, 0x00, 0x00, 0x81] :: 8 word list"
  let ?g = "[0xBE, 0xEF, 0x92, 0x00, 0x00, 0x80] :: 8 word list"
  let ?s = "component SHTCX_TYPE_SHTC3 False (\<lambda>k. True) (\<lambda>k. Some ?f)"
  let ?t = "component SHTCX_TYPE_SHTC3 False (\<lambda>k. True) (\<lambda>k. Some ?g)"
  have l: "length ?f = 3 * unat (2 :: 8 word)" "length ?g = 3 * unat (2 :: 8 word)" by simp_all
  have d: "unat (2 :: 8 word) \<le> length [0, 0 :: 16 word]" by simp
  have r: "fst (read ((unat (2 :: 8 word) * 3) mod 256) ?s) = Some ?f"
    "fst (read ((unat (2 :: 8 word) * 3) mod 256) ?t) = Some ?g"
    by (simp_all add: read_def component_def fill_buffer_def)
  have u: "unat (2 :: 8 word) = Suc (Suc 0)" by simp
  have v: "frame_valid (Suc (Suc 0)) ?f" "\<not> frame_valid (Suc (Suc 0)) ?g"
    by (simp_all add: frame_2 sht_crc_BEEF crc_vectors)
  have w: "frame_words (Suc (Suc 0)) ?f = [0xBEEF, 0x0000]" by (simp add: frame_2)
  have t: "(2 :: nat) = Suc (Suc 0)" by simp
  from read_data_all_or_nothing [OF r(1) l(1) d] read_data_all_or_nothing [OF r(2) l(2) d]
    l d r v w show ?thesis
    unfolding u t by simp
qed

section \<open>Commands, setup and the measurement cycle in closed form\<close>

lemma cmd_bytes:
  "write_command' SHTCX_COMMAND_SLEEP s = write_byte 0xB0 0x98 s"
  "write_command' SHTCX_COMMAND_WAKEUP s = write_byte 0x35 0x17 s"
  "write_command' SHTCX_COMMAND_READ_ID_REGISTER s = write_byte 0xEF 0xC8 s"
  "write_command' SHTCX_COMMAND_SOFT_RESET s = write_byte 0x80 0x5D s"
  "write_command' SHTCX_COMMAND_POLLING_H s = write_byte 0x78 0x66 s"
  by (simp_all add: write_command'_def SHTCX_COMMAND_SLEEP_def SHTCX_COMMAND_WAKEUP_def
      SHTCX_COMMAND_READ_ID_REGISTER_def SHTCX_COMMAND_SOFT_RESET_def SHTCX_COMMAND_POLLING_H_def)

lemma soft_reset_eq:
  "soft_reset s = s\<lparr>bus_count := Suc (bus_count s),
     bus_trace := bus_trace s @ [Write_Byte 0x80 0x5D, Delay_Microseconds 200]\<rparr>"
  by (simp add: soft_reset_def cmd_bytes write_byte_def delayMicroseconds_def)

lemma wake_up_eq:
  "wake_up s = s\<lparr>bus_count := Suc (bus_count s),
     bus_trace := bus_trace s @ [Write_Byte 0x35 0x17, Delay_Microseconds 200]\<rparr>"
  by (simp add: wake_up_def cmd_bytes write_byte_def delayMicroseconds_def)

lemma sleep_eq:
  "sleep s = s\<lparr>bus_count := Suc (bus_count s),
     bus_trace := bus_trace s @ [Write_Byte 0xB0 0x98]\<rparr>"
  by (simp add: sleep_def cmd_bytes write_byte_def)

lemma update_eq:
  "update s =
     (if write_result s (poll_index s)
      then s\<lparr>timeouts := timeouts s @ [50],
             bus_count := Suc (poll_index s), bus_trace := poll_trace s\<rparr>
      else s\<lparr>temperature_sensor' := map_option (publish_state NAN) (temperature_sensor' s),
             humidity_sensor' := map_option (publish_state NAN) (humidity_sensor' s),
             status_warning := True,
             bus_count := Suc (poll_index s), bus_trace := poll_trace s\<rparr>)"
  by (simp add: update_def soft_reset_eq wake_up_eq cmd_bytes write_byte_def poll_index_def
        poll_trace_def status_has_warning_def status_set_warning_def set_timeout_def Let_def)

lemma update_completion_eq:
  "update_completion s =
     Inr (s\<lparr>temperature_sensor' :=
              map_option
                (publish_state
                  (case read_words 2 (read_result s (bus_count s)) of
                     None \<Rightarrow> NAN
                   | Some ws \<Rightarrow> Num (175 * real (unat (ws ! 0)) / 65536 - 45)))
                (temperature_sensor' s),
            humidity_sensor' :=
              map_option
                (publish_state
                  (case read_words 2 (read_result s (bus_count s)) of
                     None \<Rightarrow> NAN
                   | Some ws \<Rightarrow> Num (100 * real (unat (ws ! 1)) / 65536)))
                (humidity_sensor' s),
            status_warning := False,
            bus_count := bus_count s + (if type' s \<noteq> SHTCX_TYPE_SHTC1 then 2 else 1),
            bus_trace := bus_trace s @ [Read_Bytes 6] @
              (if type' s \<noteq> SHTCX_TYPE_SHTC1 then [Write_Byte 0xB0 0x98] else [])\<rparr>)"
proof -
  obtain d where d: "read_data' [0, 0] 2 s =
     (case read_words 2 (read_result s (bus_count s)) of
        None \<Rightarrow> (Inr (False, d), snd (read 6 s))
      | Some ws \<Rightarrow> (Inr (True, ws), snd (read 6 s)))"
    using read_data_two_words [of 0 0 s] by blast
  let ?s1 = "s\<lparr>bus_count := Suc (bus_count s), bus_trace := bus_trace s @ [Read_Bytes 6]\<rparr>"
  show ?thesis
  proof (cases "read_words 2 (read_result s (bus_count s))")
    case None
    with d have r: "read_data' [0, 0] 2 s = (Inr (False, d), ?s1)"
      by (simp add: read_def)
    show ?thesis
      unfolding update_completion_def r None
      by (simp add: sleep_eq status_set_warning_def status_clear_warning_def)
  next
    case (Some ws)
    with d have r: "read_data' [0, 0] 2 s = (Inr (True, ws), ?s1)"
      by (simp add: read_def)
    show ?thesis
      unfolding update_completion_def r Some
      by (simp add: sleep_eq status_set_warning_def status_clear_warning_def)
  qed
qed

lemma setup_eq:
  "setup' s =
     (let tr = bus_trace s @
               [Write_Byte 0x35 0x17, Delay_Microseconds 200,
                Write_Byte 0x80 0x5D, Delay_Microseconds 200, Write_Byte 0xEF 0xC8]
      in if \<not> write_result s (bus_count s + 2)
         then Inr (s\<lparr>failed := True, bus_count := bus_count s + 3, bus_trace := tr\<rparr>)
         else
           (case read_words 1 (read_result s (bus_count s + 3)) of
              None \<Rightarrow>
                Inr (s\<lparr>failed := True, bus_count := bus_count s + 4,
                       bus_trace := tr @ [Read_Bytes 3]\<rparr>)
            | Some ws \<Rightarrow>
                Inr (s\<lparr>type' :=
                         (if ws ! 0 AND 0x3F = 0x07
                          then (if ws ! 0 AND 0x800 \<noteq> 0 then SHTCX_TYPE_SHTC3
                                else SHTCX_TYPE_SHTC1)
                          else SHTCX_TYPE_UNKNOWN),
                       sensor_id' := ws ! 0,
                       bus_count := bus_count s + 4,
                       bus_trace := tr @ [Read_Bytes 3]\<rparr>)))"
proof -
  let ?s3 = "s\<lparr>bus_count := bus_count s + 3,
     bus_trace := bus_trace s @
               [Write_Byte 0x35 0x17, Delay_Microseconds 200,
                Write_Byte 0x80 0x5D, Delay_Microseconds 200, Write_Byte 0xEF 0xC8]\<rparr>"
  have w: "write_command' SHTCX_COMMAND_READ_ID_REGISTER (soft_reset (wake_up s)) =
      (write_result s (bus_count s + 2), ?s3)"
    by (simp add: cmd_bytes write_byte_def soft_reset_eq wake_up_eq)
  show ?thesis
  proof (cases "read_words 1 (read_result s (bus_count s + 3))")
    case None
    then have r: "read_data' [0] 1 ?s3 = (Inr (False, [0]), snd (read 3 ?s3))"
      by (simp add: read_data_one_word)
    show ?thesis
      unfolding setup'_def Let_def w None
      by (simp add: r mark_failed_def read_def)
  next
    case (Some ws)
    then have r: "read_data' [0] 1 ?s3 = (Inr (True, ws), snd (read 3 ?s3))"
      by (simp add: read_data_one_word)
    show ?thesis
      unfolding setup'_def Let_def w Some
      by (simp add: r mark_failed_def read_def)
  qed
qed


lemma word_of_bytes:
  "push_bit 8 (ucast (ucast (drop_bit 8 v) :: 8 word)) OR ucast (ucast v :: 8 word) = v"
  for v :: "16 word"
  by (rule bit_word_eqI) (auto simp add: bit_simps)

lemma read_words_of_word:
  "read_words 1 (Some [ucast (drop_bit 8 v), ucast v, sht_crc (ucast (drop_bit 8 v)) (ucast v)]) = Some [v]"
  for v :: "16 word"
  by (simp add: read_words_def fill_buffer_def frame_1 word_of_bytes)

lemma decode_exact_in_binary32:
  fixes w :: "16 word"
  shows "\<exists>m::int. \<bar>m\<bar> < 2 ^ 24 \<and> 175 * real (unat w) = real_of_int m"
    and "\<exists>m::int. \<bar>m\<bar> < 2 ^ 24 \<and> 175 * real (unat w) / 65536 - 45 = real_of_int m / 2 ^ 16"
    and "\<exists>m::int. \<bar>m\<bar> < 2 ^ 24 \<and> 100 * real (unat w) = real_of_int m"
    and "\<exists>m::int. \<bar>m\<bar> < 2 ^ 24 \<and> 100 * real (unat w) / 65536 = real_of_int m / 2 ^ 16"
proof -
  have aux: "\<bar>175 * k\<bar> < 2 ^ 24 \<and> \<bar>175 * k - 2949120\<bar> < 2 ^ 24 \<and> \<bar>100 * k\<bar> < 2 ^ 24"
    if "0 \<le> k" "k < 65536" for k :: int
    using that by (simp add: abs_less_iff)
  have b: "\<bar>175 * uint w\<bar> < 2 ^ 24" "\<bar>175 * uint w - 2949120\<bar> < 2 ^ 24"
    "\<bar>100 * uint w\<bar> < 2 ^ 24"
    using aux [of "uint w"] uint_lt2p [of w] by simp_all
  have r: "real (unat w) = real_of_int (uint w)"
    by simp
  from b(1) show "\<exists>m::int. \<bar>m\<bar> < 2 ^ 24 \<and> 175 * real (unat w) = real_of_int m"
    unfolding r by (intro exI [of _ "175 * uint w"]) simp
  from b(2) show "\<exists>m::int. \<bar>m\<bar> < 2 ^ 24 \<and>
      175 * real (unat w) / 65536 - 45 = real_of_int m / 2 ^ 16"
    unfolding r by (intro exI [of _ "175 * uint w - 2949120"]) (simp add: field_simps)
  from b(3) show "\<exists>m::int. \<bar>m\<bar> < 2 ^ 24 \<and> 100 * real (unat w) = real_of_int m"
    unfolding r by (intro exI [of _ "100 * uint w"]) simp
  from b(3) show "\<exists>m::int. \<bar>m\<bar> < 2 ^ 24 \<and>
      100 * real (unat w) / 65536 = real_of_int m / 2 ^ 16"
    unfolding r by (intro exI [of _ "100 * uint w"]) simp
qed

section \<open>Device identity\<close>

text \<open>
  C4. Identity decoding is a function of the 16-bit ID register value \<open>v\<close> alone: when
  the low six bits of \<open>v\<close> are \<open>0x07\<close> the variant is SHTC3 if the bit of mask \<open>0x800\<close>
  is set and SHTC1 if it is clear; otherwise the variant is Unknown. (Every 16-bit value
  can be read: lemma \<open>read_words_of_word\<close>.)
\<close>

theorem identity_decoding:
  "write_result s (bus_count s + 2) \<Longrightarrow>
   read_words 1 (read_result s (bus_count s + 3)) = Some [v] \<Longrightarrow>
   (case setup' s of
      Inl e \<Rightarrow> False
    | Inr s' \<Rightarrow>
        sensor_id' s' = v \<and>
        (v AND 0x3F = 0x07 \<longrightarrow>
           type' s' = (if v AND 0x800 \<noteq> 0 then SHTCX_TYPE_SHTC3 else SHTCX_TYPE_SHTC1)) \<and>
        (v AND 0x3F \<noteq> 0x07 \<longrightarrow> type' s' = SHTCX_TYPE_UNKNOWN))"
  by (simp add: setup_eq)

theorem identity_decoding_witness:
  "write_result (component SHTCX_TYPE_UNKNOWN False (\<lambda>k. True) (\<lambda>k. Some [0x08, 0x87, 0x5B])) 2 \<and>
   read_words 1 (read_result (component SHTCX_TYPE_UNKNOWN False (\<lambda>k. True) (\<lambda>k. Some [0x08, 0x87, 0x5B])) 3) = Some [0x0887] \<and>
   (case setup' (component SHTCX_TYPE_UNKNOWN False (\<lambda>k. True) (\<lambda>k. Some [0x08, 0x87, 0x5B])) of
      Inl e \<Rightarrow> False
    | Inr s' \<Rightarrow> sensor_id' s' = 0x0887 \<and> type' s' = SHTCX_TYPE_SHTC3)"
proof -
  let ?s = "component SHTCX_TYPE_UNKNOWN False (\<lambda>k. True) (\<lambda>k. Some [0x08, 0x87, 0x5B])"
  note c = crc_vectors(3)
  have k: "bus_count ?s = 0" by (simp add: component_def)
  have w: "write_result ?s (bus_count ?s + 2)" by (simp add: component_def)
  have r: "read_words 1 (read_result ?s (bus_count ?s + 3)) = Some [0x0887]"
    by (simp add: component_def read_words_def fill_buffer_def frame_1 c)
  have m: "(0x0887 :: 16 word) AND 0x3F = 7" "(0x0887 :: 16 word) AND 0x800 \<noteq> 0" by simp_all
  from identity_decoding [OF w r] w r m show ?thesis
    by (simp add: component_def split: sum.splits)
qed

text \<open>
  C8. When the ReadID write or the one-word read that follows it fails, \<^verbatim>\<open>setup\<close> marks
  the component failed and stops: the state is the one before setup with the failed flag
  set, so no variant and no identity is stored, and the bus has seen one ReadID command
  and at most one read, so nothing is retried. A measurement cycle never sets the failed
  flag.
\<close>

theorem setup_failure_is_fatal:
  "(\<not> write_result s (bus_count s + 2) \<longrightarrow>
      setup' s =
        Inr (s\<lparr>failed := True, bus_count := bus_count s + 3,
               bus_trace := bus_trace s @
                 [Write_Byte 0x35 0x17, Delay_Microseconds 200,
                  Write_Byte 0x80 0x5D, Delay_Microseconds 200, Write_Byte 0xEF 0xC8]\<rparr>)) \<and>
   (write_result s (bus_count s + 2) \<and>
    read_words 1 (read_result s (bus_count s + 3)) = None \<longrightarrow>
      setup' s =
        Inr (s\<lparr>failed := True, bus_count := bus_count s + 4,
               bus_trace := bus_trace s @
                 [Write_Byte 0x35 0x17, Delay_Microseconds 200,
                  Write_Byte 0x80 0x5D, Delay_Microseconds 200, Write_Byte 0xEF 0xC8,
                  Read_Bytes 3]\<rparr>)) \<and>
   failed (update s) = failed s \<and>
   (case update_completion s of Inl e \<Rightarrow> False | Inr s' \<Rightarrow> failed s' = failed s)"
  by (simp add: setup_eq update_eq update_completion_eq)

theorem setup_failure_is_fatal_witness:
  "\<not> write_result (component SHTCX_TYPE_UNKNOWN False (\<lambda>k. k \<noteq> 2) (\<lambda>k. None)) 2 \<and>
   (case setup' (component SHTCX_TYPE_UNKNOWN False (\<lambda>k. k \<noteq> 2) (\<lambda>k. None)) of
      Inl e \<Rightarrow> False
    | Inr s' \<Rightarrow>
        failed s' \<and> type' s' = SHTCX_TYPE_UNKNOWN \<and> sensor_id' s' = 0 \<and>
        bus_trace s' =
          [Write_Byte 0x35 0x17, Delay_Microseconds 200,
           Write_Byte 0x80 0x5D, Delay_Microseconds 200, Write_Byte 0xEF 0xC8]) \<and>
   write_result
     (component SHTCX_TYPE_UNKNOWN False (\<lambda>k. True) (\<lambda>k. Some [0x08, 0x87, 0x5A])) 2 \<and>
   read_words 1 (Some [0x08, 0x87, 0x5A]) = None \<and>
   (case setup'
           (component SHTCX_TYPE_UNKNOWN False (\<lambda>k. True) (\<lambda>k. Some [0x08, 0x87, 0x5A])) of
      Inl e \<Rightarrow> False
    | Inr s' \<Rightarrow>
        failed s' \<and> type' s' = SHTCX_TYPE_UNKNOWN \<and> sensor_id' s' = 0 \<and>
        bus_trace s' =
          [Write_Byte 0x35 0x17, Delay_Microseconds 200,
           Write_Byte 0x80 0x5D, Delay_Microseconds 200, Write_Byte 0xEF 0xC8,
           Read_Bytes 3])"
proof -
  let ?a = "component SHTCX_TYPE_UNKNOWN False (\<lambda>k. k \<noteq> 2) (\<lambda>k. None)"
  let ?b = "component SHTCX_TYPE_UNKNOWN False (\<lambda>k. True) (\<lambda>k. Some [0x08, 0x87, 0x5A])"
  have a: "\<not> write_result ?a (bus_count ?a + 2)"
    by (simp add: component_def)
  have b: "write_result ?b (bus_count ?b + 2)"
    by (simp add: component_def)
  have n: "read_words 1 (Some [0x08, 0x87, 0x5A]) = None"
    by (simp add: read_words_def fill_buffer_def frame_1 crc_vectors)
  then have r: "read_words 1 (read_result ?b (bus_count ?b + 3)) = None"
    by (simp add: component_def)
  have A: "setup' ?a =
        Inr (?a\<lparr>failed := True, bus_count := bus_count ?a + 3,
               bus_trace := bus_trace ?a @
                 [Write_Byte 0x35 0x17, Delay_Microseconds 200,
                  Write_Byte 0x80 0x5D, Delay_Microseconds 200, Write_Byte 0xEF 0xC8]\<rparr>)"
    using setup_failure_is_fatal [of ?a] a by blast
  have B: "setup' ?b =
        Inr (?b\<lparr>failed := True, bus_count := bus_count ?b + 4,
               bus_trace := bus_trace ?b @
                 [Write_Byte 0x35 0x17, Delay_Microseconds 200,
                  Write_Byte 0x80 0x5D, Delay_Microseconds 200, Write_Byte 0xEF 0xC8,
                  Read_Bytes 3]\<rparr>)"
    using setup_failure_is_fatal [of ?b] b r by blast
  show ?thesis
    unfolding A B using n by (simp add: component_def)
qed

text \<open>
  C10. \<^verbatim>\<open>setup\<close> discards the results of the wake-up and of the soft reset: whatever
  they are, the ReadID command is sent, and the component is failed afterwards exactly
  when it was failed before, the ReadID write failed or the one-word read failed.
\<close>

theorem setup_ignores_wake_and_reset_results:
  "(case setup' s of
      Inl e \<Rightarrow> False
    | Inr s' \<Rightarrow>
        take (length (bus_trace s) + 5) (bus_trace s') =
          bus_trace s @
            [Write_Byte 0x35 0x17, Delay_Microseconds 200,
             Write_Byte 0x80 0x5D, Delay_Microseconds 200, Write_Byte 0xEF 0xC8] \<and>
        failed s' =
          (failed s \<or> \<not> write_result s (bus_count s + 2) \<or>
           read_words 1 (read_result s (bus_count s + 3)) = None)) \<and>
   setup' (s\<lparr>write_result := (write_result s)(bus_count s := a, Suc (bus_count s) := b)\<rparr>) =
     map_sum id
       (\<lambda>s'. s'\<lparr>write_result := (write_result s)(bus_count s := a, Suc (bus_count s) := b)\<rparr>)
       (setup' s)"
  by (simp add: setup_eq Let_def split: option.splits)

theorem setup_ignores_wake_and_reset_results_witness:
  "\<not> write_result
       (component SHTCX_TYPE_UNKNOWN False (\<lambda>k. k = 2) (\<lambda>k. Some [0x08, 0x87, 0x5B])) 0 \<and>
   \<not> write_result
       (component SHTCX_TYPE_UNKNOWN False (\<lambda>k. k = 2) (\<lambda>k. Some [0x08, 0x87, 0x5B])) 1 \<and>
   (case setup'
           (component SHTCX_TYPE_UNKNOWN False (\<lambda>k. k = 2) (\<lambda>k. Some [0x08, 0x87, 0x5B])) of
      Inl e \<Rightarrow> False
    | Inr s' \<Rightarrow>
        take 5 (bus_trace s') =
          [Write_Byte 0x35 0x17, Delay_Microseconds 200,
           Write_Byte 0x80 0x5D, Delay_Microseconds 200, Write_Byte 0xEF 0xC8] \<and>
        \<not> failed s')"
proof -
  let ?a = "component SHTCX_TYPE_UNKNOWN False (\<lambda>k. k = 2) (\<lambda>k. Some [0x08, 0x87, 0x5B])"
  have w: "write_result ?a (bus_count ?a + 2)" "\<not> failed ?a" "bus_trace ?a = []"
    "\<not> write_result ?a 0" "\<not> write_result ?a 1"
    by (simp_all add: component_def)
  have r: "read_words 1 (read_result ?a (bus_count ?a + 3)) = Some [0x0887]"
    by (simp add: component_def read_words_def fill_buffer_def frame_1 crc_vectors)
  from setup_ignores_wake_and_reset_results [of ?a True True]
  have "case setup' ?a of
      Inl e \<Rightarrow> False
    | Inr s' \<Rightarrow>
        take (length (bus_trace ?a) + 5) (bus_trace s') =
          bus_trace ?a @
            [Write_Byte 0x35 0x17, Delay_Microseconds 200,
             Write_Byte 0x80 0x5D, Delay_Microseconds 200, Write_Byte 0xEF 0xC8] \<and>
        failed s' =
          (failed ?a \<or> \<not> write_result ?a (bus_count ?a + 2) \<or>
           read_words 1 (read_result ?a (bus_count ?a + 3)) = None)"
    by (rule conjunct1)
  then have "case setup' ?a of
      Inl e \<Rightarrow> False
    | Inr s' \<Rightarrow>
        take 5 (bus_trace s') =
            [Write_Byte 0x35 0x17, Delay_Microseconds 200,
             Write_Byte 0x80 0x5D, Delay_Microseconds 200, Write_Byte 0xEF 0xC8] \<and>
        \<not> failed s'"
    unfolding r w(3) using w(1,2) by (simp split: sum.splits)
  with w(4,5) show ?thesis by blast
qed

section \<open>The measurement cycle\<close>

text \<open>
  C5. When the poll command fails, \<^verbatim>\<open>update\<close> publishes NAN to both sinks (where
  present), sets the warning and ends: the poll is the last bus transaction and no
  timeout is registered. A timeout is registered if and only if the poll succeeds, and
  then exactly one.
\<close>

theorem poll_failure_ends_cycle:
  "timeouts (update s) = timeouts s @ (if write_result s (poll_index s) then [50] else []) \<and>
   bus_trace (update s) = poll_trace s \<and>
   bus_count (update s) = Suc (poll_index s) \<and>
   (\<not> write_result s (poll_index s) \<longrightarrow>
      temperature_sensor' (update s) = map_option (publish_state NAN) (temperature_sensor' s) \<and>
      humidity_sensor' (update s) = map_option (publish_state NAN) (humidity_sensor' s) \<and>
      status_warning (update s))"
  by (simp add: update_eq)

theorem poll_failure_ends_cycle_witness:
  "\<not> write_result (component SHTCX_TYPE_SHTC3 False (\<lambda>k. k \<noteq> 1) (\<lambda>k. None))
       (poll_index (component SHTCX_TYPE_SHTC3 False (\<lambda>k. k \<noteq> 1) (\<lambda>k. None))) \<and>
   timeouts (update (component SHTCX_TYPE_SHTC3 False (\<lambda>k. k \<noteq> 1) (\<lambda>k. None))) = [] \<and>
   bus_trace (update (component SHTCX_TYPE_SHTC3 False (\<lambda>k. k \<noteq> 1) (\<lambda>k. None))) =
     [Write_Byte 0x35 0x17, Delay_Microseconds 200, Write_Byte 0x78 0x66] \<and>
   temperature_sensor' (update (component SHTCX_TYPE_SHTC3 False (\<lambda>k. k \<noteq> 1) (\<lambda>k. None))) = Some [NAN] \<and>
   humidity_sensor' (update (component SHTCX_TYPE_SHTC3 False (\<lambda>k. k \<noteq> 1) (\<lambda>k. None))) = Some [NAN] \<and>
   status_warning (update (component SHTCX_TYPE_SHTC3 False (\<lambda>k. k \<noteq> 1) (\<lambda>k. None)))"
  using poll_failure_ends_cycle [of "component SHTCX_TYPE_SHTC3 False (\<lambda>k. k \<noteq> 1) (\<lambda>k. None)"]
  by (simp add: component_def poll_index_def poll_trace_def publish_state_def)

text \<open>
  C6. A cycle that starts with the warning set (because the previous one ended so) sends
  SoftReset first, then wakes (unless SHTC1) and polls; the outcome of that soft reset
  changes nothing in what follows.
\<close>

theorem warning_triggers_soft_reset:
  "status_warning s \<Longrightarrow>
   bus_trace (update s) =
     bus_trace s @ [Write_Byte 0x80 0x5D, Delay_Microseconds 200] @
     (if type' s \<noteq> SHTCX_TYPE_SHTC1
      then [Write_Byte 0x35 0x17, Delay_Microseconds 200] else []) @
     [Write_Byte 0x78 0x66] \<and>
   update (s\<lparr>write_result := (write_result s)(bus_count s := b)\<rparr>) =
     (update s)\<lparr>write_result := (write_result s)(bus_count s := b)\<rparr>"
  by (simp add: update_eq poll_index_def poll_trace_def)

theorem warning_triggers_soft_reset_witness:
  "status_warning (update (component SHTCX_TYPE_SHTC3 False (\<lambda>k. k \<noteq> 1) (\<lambda>k. None))) \<and>
   bus_trace (update (update (component SHTCX_TYPE_SHTC3 False (\<lambda>k. k \<noteq> 1) (\<lambda>k. None)))) =
     [Write_Byte 0x35 0x17, Delay_Microseconds 200, Write_Byte 0x78 0x66,
      Write_Byte 0x80 0x5D, Delay_Microseconds 200,
      Write_Byte 0x35 0x17, Delay_Microseconds 200, Write_Byte 0x78 0x66]"
proof -
  let ?s = "update (component SHTCX_TYPE_SHTC3 False (\<lambda>k. k \<noteq> 1) (\<lambda>k. None))"
  have w: "status_warning ?s"
    by (simp add: update_eq component_def poll_index_def)
  have t: "bus_trace ?s = [Write_Byte 0x35 0x17, Delay_Microseconds 200, Write_Byte 0x78 0x66]"
    and y: "type' ?s = SHTCX_TYPE_SHTC3"
    by (simp_all add: update_eq component_def poll_index_def poll_trace_def)
  from warning_triggers_soft_reset [OF w, of False] w t y show ?thesis
    by simp
qed

text \<open>
  C7. After a successful 2-word read the temperature published is
  \<open>175 * word0 / 65536 - 45\<close> and the humidity published is \<open>100 * word1 / 65536\<close>; the
  raw word \<open>0x0000\<close> gives \<open>-45\<close> and \<open>0\<close>, the raw word \<open>0x8000\<close> gives \<open>42.5\<close> and
  \<open>50\<close>.
\<close>

theorem decode_measurement:
  "fst (read_data' [0, 0] 2 s) = Inr (True, [w0, w1]) \<Longrightarrow>
   (case update_completion s of
      Inl e \<Rightarrow> False
    | Inr s' \<Rightarrow>
        temperature_sensor' s' =
          map_option (publish_state (Num (175 * real (unat w0) / 65536 - 45)))
            (temperature_sensor' s) \<and>
        humidity_sensor' s' =
          map_option (publish_state (Num (100 * real (unat w1) / 65536)))
            (humidity_sensor' s))"
proof -
  assume ok: "fst (read_data' [0, 0] 2 s) = Inr (True, [w0, w1])"
  obtain d where d: "read_data' [0, 0] 2 s =
     (case read_words 2 (read_result s (bus_count s)) of
        None \<Rightarrow> (Inr (False, d), snd (read 6 s))
      | Some ws \<Rightarrow> (Inr (True, ws), snd (read 6 s)))"
    using read_data_two_words [of 0 0 s] by blast
  from ok d have "read_words 2 (read_result s (bus_count s)) = Some [w0, w1]"
    by (cases "read_words 2 (read_result s (bus_count s))") simp_all
  then show ?thesis
    by (simp add: update_completion_eq)
qed

theorem decode_measurement_witness:
  "fst (read_data' [0, 0] 2
         (component SHTCX_TYPE_SHTC3 False (\<lambda>k. True)
            (\<lambda>k. Some [0x80, 0x00, 0xA2, 0x80, 0x00, 0xA2]))) = Inr (True, [0x8000, 0x8000]) \<and>
   (case update_completion
           (component SHTCX_TYPE_SHTC3 False (\<lambda>k. True)
              (\<lambda>k. Some [0x80, 0x00, 0xA2, 0x80, 0x00, 0xA2])) of
      Inl e \<Rightarrow> False
    | Inr s' \<Rightarrow>
        temperature_sensor' s' = Some [Num 42.5] \<and> humidity_sensor' s' = Some [Num 50]) \<and>
   fst (read_data' [0, 0] 2
         (component SHTCX_TYPE_SHTC3 False (\<lambda>k. True)
            (\<lambda>k. Some [0x00, 0x00, 0x81, 0x00, 0x00, 0x81]))) = Inr (True, [0x0000, 0x0000]) \<and>
   (case update_completion
           (component SHTCX_TYPE_SHTC3 False (\<lambda>k. True)
              (\<lambda>k. Some [0x00, 0x00, 0x81, 0x00, 0x00, 0x81])) of
      Inl e \<Rightarrow> False
    | Inr s' \<Rightarrow>
        temperature_sensor' s' = Some [Num (- 45)] \<and> humidity_sensor' s' = Some [Num 0])"
proof -
  let ?a = "component SHTCX_TYPE_SHTC3 False (\<lambda>k. True)
              (\<lambda>k. Some [0x80, 0x00, 0xA2, 0x80, 0x00, 0xA2])"
  let ?b = "component SHTCX_TYPE_SHTC3 False (\<lambda>k. True)
              (\<lambda>k. Some [0x00, 0x00, 0x81, 0x00, 0x00, 0x81])"
  note c = crc_vectors(1,2)
  have "read_result ?a (bus_count ?a) = Some [0x80, 0x00, sht_crc 0x80 0, 0x80, 0x00, sht_crc 0x80 0]"
    by (simp add: component_def c)
  from read_data_two_words_ok [OF this] have a: "fst (read_data' [0, 0] 2 ?a) = Inr (True, [0x8000, 0x8000])"
    by simp
  have "read_result ?b (bus_count ?b) = Some [0, 0, sht_crc 0 0, 0, 0, sht_crc 0 0]"
    by (simp add: component_def c)
  from read_data_two_words_ok [OF this] have b: "fst (read_data' [0, 0] 2 ?b) = Inr (True, [0x0000, 0x0000])"
    by simp
  have sa: "temperature_sensor' ?a = Some []" "humidity_sensor' ?a = Some []"
    and sb: "temperature_sensor' ?b = Some []" "humidity_sensor' ?b = Some []"
    by (simp_all add: component_def)
  from decode_measurement [OF a] decode_measurement [OF b] a b show ?thesis
    unfolding sa sb by (simp add: publish_state_def split: sum.splits)
qed

text \<open>
  C1. In a cycle whose poll succeeded and whose delayed 2-word read fails, the
  continuation publishes NAN to both sinks; the claim has the cycle end with the warning
  set. The source sets the warning on the failure branch (line 95) and then clears it
  unconditionally (line 106), so the cycle ends with the warning cleared and the next
  cycle sends no soft reset. Evaluated on an SHTC3 whose bus acknowledges every write and
  fails the read:
\<close>

theorem failed_read_ends_with_warning_cleared:
  "timeouts (update (component SHTCX_TYPE_SHTC3 False (\<lambda>k. True) (\<lambda>k. None))) = [50] \<and>
   fst (read_data' [0, 0] 2
          (update (component SHTCX_TYPE_SHTC3 False (\<lambda>k. True) (\<lambda>k. None)))) =
     Inr (False, [0, 0]) \<and>
   (case update_completion
           (update (component SHTCX_TYPE_SHTC3 False (\<lambda>k. True) (\<lambda>k. None))) of
      Inl e \<Rightarrow> False
    | Inr s' \<Rightarrow>
        temperature_sensor' s' = Some [NAN] \<and>
        humidity_sensor' s' = Some [NAN] \<and>
        status_warning s' = False \<and>
        bus_trace (update s') =
          [Write_Byte 0x35 0x17, Delay_Microseconds 200, Write_Byte 0x78 0x66,
           Read_Bytes 6, Write_Byte 0xB0 0x98,
           Write_Byte 0x35 0x17, Delay_Microseconds 200, Write_Byte 0x78 0x66])"
  by (simp add: update_completion_eq update_eq component_def poll_index_def poll_trace_def
        read_words_def publish_state_def read_data'_def read_def)

lemma completion_always_clears_warning:
  "case update_completion s of Inl e \<Rightarrow> False | Inr s' \<Rightarrow> \<not> status_warning s'"
  by (simp add: update_completion_eq)

text \<open>
  C9. \<^verbatim>\<open>type_\<close> and \<^verbatim>\<open>sensor_id_\<close> are write-once: \<^verbatim>\<open>update\<close> and its continuation
  leave them (and the failed flag) as they are, and a setup that fails does not assign
  them. What a cycle publishes is computed from the bytes read in that cycle alone. The
  warning flag is the only state a cycle takes over from earlier ones: two components
  \<open>s\<close> and \<open>t\<close> of the same variant with the same warning flag, whatever else their
  histories are, do the same in \<^verbatim>\<open>update\<close> when the bus answers the poll alike (same
  new warning flag, same bus traffic, same timeouts registered, same values published),
  and the continuation does the same on both when the bus delivers the same words, without
  looking at the warning flag at all.
\<close>

theorem identity_is_write_once:
  "type' (update s) = type' s \<and> sensor_id' (update s) = sensor_id' s \<and>
   failed (update s) = failed s \<and>
   (case update_completion s of
      Inl e \<Rightarrow> False
    | Inr s' \<Rightarrow>
        type' s' = type' s \<and> sensor_id' s' = sensor_id' s \<and> failed s' = failed s \<and>
        timeouts s' = timeouts s \<and>
        temperature_sensor' s' =
          map_option
            (publish_state
              (case read_words 2 (read_result s (bus_count s)) of
                 None \<Rightarrow> NAN
               | Some ws \<Rightarrow> Num (175 * real (unat (ws ! 0)) / 65536 - 45)))
            (temperature_sensor' s) \<and>
        humidity_sensor' s' =
          map_option
            (publish_state
              (case read_words 2 (read_result s (bus_count s)) of
                 None \<Rightarrow> NAN
               | Some ws \<Rightarrow> Num (100 * real (unat (ws ! 1)) / 65536)))
            (humidity_sensor' s)) \<and>
   (case setup' s of
      Inl e \<Rightarrow> False
    | Inr s' \<Rightarrow>
        (\<not> write_result s (bus_count s + 2) \<or>
         read_words 1 (read_result s (bus_count s + 3)) = None \<longrightarrow>
         type' s' = type' s \<and> sensor_id' s' = sensor_id' s)) \<and>
   (status_warning s = status_warning t \<and> type' s = type' t \<and>
    write_result s (poll_index s) = write_result t (poll_index t) \<longrightarrow>
      status_warning (update s) = status_warning (update t) \<and>
      drop (length (bus_trace s)) (bus_trace (update s)) =
        drop (length (bus_trace t)) (bus_trace (update t)) \<and>
      bus_count (update s) - bus_count s = bus_count (update t) - bus_count t \<and>
      drop (length (timeouts s)) (timeouts (update s)) =
        drop (length (timeouts t)) (timeouts (update t)) \<and>
      (\<exists>tv hv.
         temperature_sensor' (update s) = map_option (\<lambda>p. p @ tv) (temperature_sensor' s) \<and>
         temperature_sensor' (update t) = map_option (\<lambda>p. p @ tv) (temperature_sensor' t) \<and>
         humidity_sensor' (update s) = map_option (\<lambda>p. p @ hv) (humidity_sensor' s) \<and>
         humidity_sensor' (update t) = map_option (\<lambda>p. p @ hv) (humidity_sensor' t))) \<and>
   (type' s = type' t \<and>
    read_words 2 (read_result s (bus_count s)) = read_words 2 (read_result t (bus_count t)) \<longrightarrow>
      (case update_completion s of
         Inl e \<Rightarrow> False
       | Inr s' \<Rightarrow>
           (case update_completion t of
              Inl e \<Rightarrow> False
            | Inr t' \<Rightarrow>
                status_warning s' = status_warning t' \<and>
                drop (length (bus_trace s)) (bus_trace s') =
                  drop (length (bus_trace t)) (bus_trace t') \<and>
                bus_count s' - bus_count s = bus_count t' - bus_count t \<and>
                (\<exists>tv hv.
                   temperature_sensor' s' = map_option (\<lambda>p. p @ tv) (temperature_sensor' s) \<and>
                   temperature_sensor' t' = map_option (\<lambda>p. p @ tv) (temperature_sensor' t) \<and>
                   humidity_sensor' s' = map_option (\<lambda>p. p @ hv) (humidity_sensor' s) \<and>
                   humidity_sensor' t' = map_option (\<lambda>p. p @ hv) (humidity_sensor' t)))))"
proof (intro conjI impI)
  show "type' (update s) = type' s" "sensor_id' (update s) = sensor_id' s"
    "failed (update s) = failed s"
    by (simp_all add: update_eq)
  show "case update_completion s of
      Inl e \<Rightarrow> False
    | Inr s' \<Rightarrow>
        type' s' = type' s \<and> sensor_id' s' = sensor_id' s \<and> failed s' = failed s \<and>
        timeouts s' = timeouts s \<and>
        temperature_sensor' s' =
          map_option
            (publish_state
              (case read_words 2 (read_result s (bus_count s)) of
                 None \<Rightarrow> NAN
               | Some ws \<Rightarrow> Num (175 * real (unat (ws ! 0)) / 65536 - 45)))
            (temperature_sensor' s) \<and>
        humidity_sensor' s' =
          map_option
            (publish_state
              (case read_words 2 (read_result s (bus_count s)) of
                 None \<Rightarrow> NAN
               | Some ws \<Rightarrow> Num (100 * real (unat (ws ! 1)) / 65536)))
            (humidity_sensor' s)"
    by (simp add: update_completion_eq)
  show "case setup' s of
      Inl e \<Rightarrow> False
    | Inr s' \<Rightarrow>
        (\<not> write_result s (bus_count s + 2) \<or>
         read_words 1 (read_result s (bus_count s + 3)) = None \<longrightarrow>
         type' s' = type' s \<and> sensor_id' s' = sensor_id' s)"
    by (simp add: setup_eq Let_def split: option.splits)
next
  assume a: "status_warning s = status_warning t \<and> type' s = type' t \<and>
    write_result s (poll_index s) = write_result t (poll_index t)"
  then have tr: "drop (length (bus_trace s)) (poll_trace s) =
      drop (length (bus_trace t)) (poll_trace t)"
    by (simp add: poll_trace_def)
  from a have ix: "poll_index s - bus_count s = poll_index t - bus_count t"
    by (simp add: poll_index_def)
  have le: "bus_count s \<le> poll_index s" "bus_count t \<le> poll_index t"
    by (simp_all add: poll_index_def)
  show "status_warning (update s) = status_warning (update t)"
    using a by (simp add: update_eq)
  show "drop (length (bus_trace s)) (bus_trace (update s)) =
        drop (length (bus_trace t)) (bus_trace (update t))"
    using tr by (simp add: update_eq)
  show "bus_count (update s) - bus_count s = bus_count (update t) - bus_count t"
    using ix le by (simp add: update_eq Suc_diff_le)
  show "drop (length (timeouts s)) (timeouts (update s)) =
        drop (length (timeouts t)) (timeouts (update t))"
    using a by (simp add: update_eq)
  show "\<exists>tv hv.
         temperature_sensor' (update s) = map_option (\<lambda>p. p @ tv) (temperature_sensor' s) \<and>
         temperature_sensor' (update t) = map_option (\<lambda>p. p @ tv) (temperature_sensor' t) \<and>
         humidity_sensor' (update s) = map_option (\<lambda>p. p @ hv) (humidity_sensor' s) \<and>
         humidity_sensor' (update t) = map_option (\<lambda>p. p @ hv) (humidity_sensor' t)"
  proof (cases "write_result s (poll_index s)")
    case True
    with a show ?thesis
      by (intro exI [of _ "[]"]) (simp add: update_eq option.map_ident)
  next
    case False
    with a show ?thesis
      by (intro exI [of _ "[NAN]"]) (simp add: update_eq publish_state_def [abs_def])
  qed
next
  assume a: "type' s = type' t \<and>
    read_words 2 (read_result s (bus_count s)) = read_words 2 (read_result t (bus_count t))"
  let ?tv = "case read_words 2 (read_result s (bus_count s)) of
                 None \<Rightarrow> NAN
               | Some ws \<Rightarrow> Num (175 * real (unat (ws ! 0)) / 65536 - 45)"
  let ?hv = "case read_words 2 (read_result s (bus_count s)) of
                 None \<Rightarrow> NAN
               | Some ws \<Rightarrow> Num (100 * real (unat (ws ! 1)) / 65536)"
  have "\<exists>tv hv.
      map_option (publish_state ?tv) (temperature_sensor' s) =
        map_option (\<lambda>p. p @ tv) (temperature_sensor' s) \<and>
      map_option (publish_state ?tv) (temperature_sensor' t) =
        map_option (\<lambda>p. p @ tv) (temperature_sensor' t) \<and>
      map_option (publish_state ?hv) (humidity_sensor' s) =
        map_option (\<lambda>p. p @ hv) (humidity_sensor' s) \<and>
      map_option (publish_state ?hv) (humidity_sensor' t) =
        map_option (\<lambda>p. p @ hv) (humidity_sensor' t)"
    by (intro exI [of _ "[?tv]"] exI [of _ "[?hv]"]) (simp add: publish_state_def [abs_def])
  with a show "case update_completion s of
         Inl e \<Rightarrow> False
       | Inr s' \<Rightarrow>
           (case update_completion t of
              Inl e \<Rightarrow> False
            | Inr t' \<Rightarrow>
                status_warning s' = status_warning t' \<and>
                drop (length (bus_trace s)) (bus_trace s') =
                  drop (length (bus_trace t)) (bus_trace t') \<and>
                bus_count s' - bus_count s = bus_count t' - bus_count t \<and>
                (\<exists>tv hv.
                   temperature_sensor' s' = map_option (\<lambda>p. p @ tv) (temperature_sensor' s) \<and>
                   temperature_sensor' t' = map_option (\<lambda>p. p @ tv) (temperature_sensor' t) \<and>
                   humidity_sensor' s' = map_option (\<lambda>p. p @ hv) (humidity_sensor' s) \<and>
                   humidity_sensor' t' = map_option (\<lambda>p. p @ hv) (humidity_sensor' t)))"
    by (simp add: update_completion_eq)
qed

theorem identity_is_write_once_witness:
  "status_warning (component SHTCX_TYPE_SHTC3 False (\<lambda>k. k \<noteq> 2) (\<lambda>k. None)) = status_warning (component SHTCX_TYPE_SHTC3 False (\<lambda>k. k \<noteq> 2) (\<lambda>k. None)
        \<lparr>sensor_id' := 0x0887, temperature_sensor' := Some [Num 1], failed := True,
         timeouts := [50], bus_trace := [Read_Bytes 6]\<rparr>) \<and> type' (component SHTCX_TYPE_SHTC3 False (\<lambda>k. k \<noteq> 2) (\<lambda>k. None)) = type' (component SHTCX_TYPE_SHTC3 False (\<lambda>k. k \<noteq> 2) (\<lambda>k. None)
        \<lparr>sensor_id' := 0x0887, temperature_sensor' := Some [Num 1], failed := True,
         timeouts := [50], bus_trace := [Read_Bytes 6]\<rparr>) \<and>
   write_result (component SHTCX_TYPE_SHTC3 False (\<lambda>k. k \<noteq> 2) (\<lambda>k. None)) (poll_index (component SHTCX_TYPE_SHTC3 False (\<lambda>k. k \<noteq> 2) (\<lambda>k. None))) = write_result (component SHTCX_TYPE_SHTC3 False (\<lambda>k. k \<noteq> 2) (\<lambda>k. None)
        \<lparr>sensor_id' := 0x0887, temperature_sensor' := Some [Num 1], failed := True,
         timeouts := [50], bus_trace := [Read_Bytes 6]\<rparr>) (poll_index (component SHTCX_TYPE_SHTC3 False (\<lambda>k. k \<noteq> 2) (\<lambda>k. None)
        \<lparr>sensor_id' := 0x0887, temperature_sensor' := Some [Num 1], failed := True,
         timeouts := [50], bus_trace := [Read_Bytes 6]\<rparr>)) \<and>
   read_words 2 (read_result (component SHTCX_TYPE_SHTC3 False (\<lambda>k. k \<noteq> 2) (\<lambda>k. None)) (bus_count (component SHTCX_TYPE_SHTC3 False (\<lambda>k. k \<noteq> 2) (\<lambda>k. None)))) = read_words 2 (read_result (component SHTCX_TYPE_SHTC3 False (\<lambda>k. k \<noteq> 2) (\<lambda>k. None)
        \<lparr>sensor_id' := 0x0887, temperature_sensor' := Some [Num 1], failed := True,
         timeouts := [50], bus_trace := [Read_Bytes 6]\<rparr>) (bus_count (component SHTCX_TYPE_SHTC3 False (\<lambda>k. k \<noteq> 2) (\<lambda>k. None)
        \<lparr>sensor_id' := 0x0887, temperature_sensor' := Some [Num 1], failed := True,
         timeouts := [50], bus_trace := [Read_Bytes 6]\<rparr>))) \<and>
   \<not> write_result (component SHTCX_TYPE_SHTC3 False (\<lambda>k. k \<noteq> 2) (\<lambda>k. None)) (bus_count (component SHTCX_TYPE_SHTC3 False (\<lambda>k. k \<noteq> 2) (\<lambda>k. None)) + 2) \<and>
   timeouts (component SHTCX_TYPE_SHTC3 False (\<lambda>k. k \<noteq> 2) (\<lambda>k. None)) \<noteq> timeouts (component SHTCX_TYPE_SHTC3 False (\<lambda>k. k \<noteq> 2) (\<lambda>k. None)
        \<lparr>sensor_id' := 0x0887, temperature_sensor' := Some [Num 1], failed := True,
         timeouts := [50], bus_trace := [Read_Bytes 6]\<rparr>) \<and> sensor_id' (component SHTCX_TYPE_SHTC3 False (\<lambda>k. k \<noteq> 2) (\<lambda>k. None)) \<noteq> sensor_id' (component SHTCX_TYPE_SHTC3 False (\<lambda>k. k \<noteq> 2) (\<lambda>k. None)
        \<lparr>sensor_id' := 0x0887, temperature_sensor' := Some [Num 1], failed := True,
         timeouts := [50], bus_trace := [Read_Bytes 6]\<rparr>) \<and> failed (component SHTCX_TYPE_SHTC3 False (\<lambda>k. k \<noteq> 2) (\<lambda>k. None)) \<noteq> failed (component SHTCX_TYPE_SHTC3 False (\<lambda>k. k \<noteq> 2) (\<lambda>k. None)
        \<lparr>sensor_id' := 0x0887, temperature_sensor' := Some [Num 1], failed := True,
         timeouts := [50], bus_trace := [Read_Bytes 6]\<rparr>) \<and>
   status_warning (update (component SHTCX_TYPE_SHTC3 False (\<lambda>k. k \<noteq> 2) (\<lambda>k. None))) = status_warning (update (component SHTCX_TYPE_SHTC3 False (\<lambda>k. k \<noteq> 2) (\<lambda>k. None)
        \<lparr>sensor_id' := 0x0887, temperature_sensor' := Some [Num 1], failed := True,
         timeouts := [50], bus_trace := [Read_Bytes 6]\<rparr>)) \<and>
   drop (length (bus_trace (component SHTCX_TYPE_SHTC3 False (\<lambda>k. k \<noteq> 2) (\<lambda>k. None)))) (bus_trace (update (component SHTCX_TYPE_SHTC3 False (\<lambda>k. k \<noteq> 2) (\<lambda>k. None)))) =
     drop (length (bus_trace (component SHTCX_TYPE_SHTC3 False (\<lambda>k. k \<noteq> 2) (\<lambda>k. None)
        \<lparr>sensor_id' := 0x0887, temperature_sensor' := Some [Num 1], failed := True,
         timeouts := [50], bus_trace := [Read_Bytes 6]\<rparr>))) (bus_trace (update (component SHTCX_TYPE_SHTC3 False (\<lambda>k. k \<noteq> 2) (\<lambda>k. None)
        \<lparr>sensor_id' := 0x0887, temperature_sensor' := Some [Num 1], failed := True,
         timeouts := [50], bus_trace := [Read_Bytes 6]\<rparr>))) \<and>
   drop (length (timeouts (component SHTCX_TYPE_SHTC3 False (\<lambda>k. k \<noteq> 2) (\<lambda>k. None)))) (timeouts (update (component SHTCX_TYPE_SHTC3 False (\<lambda>k. k \<noteq> 2) (\<lambda>k. None)))) =
     drop (length (timeouts (component SHTCX_TYPE_SHTC3 False (\<lambda>k. k \<noteq> 2) (\<lambda>k. None)
        \<lparr>sensor_id' := 0x0887, temperature_sensor' := Some [Num 1], failed := True,
         timeouts := [50], bus_trace := [Read_Bytes 6]\<rparr>))) (timeouts (update (component SHTCX_TYPE_SHTC3 False (\<lambda>k. k \<noteq> 2) (\<lambda>k. None)
        \<lparr>sensor_id' := 0x0887, temperature_sensor' := Some [Num 1], failed := True,
         timeouts := [50], bus_trace := [Read_Bytes 6]\<rparr>))) \<and>
   type' (update (component SHTCX_TYPE_SHTC3 False (\<lambda>k. k \<noteq> 2) (\<lambda>k. None)
        \<lparr>sensor_id' := 0x0887, temperature_sensor' := Some [Num 1], failed := True,
         timeouts := [50], bus_trace := [Read_Bytes 6]\<rparr>)) = type' (component SHTCX_TYPE_SHTC3 False (\<lambda>k. k \<noteq> 2) (\<lambda>k. None)
        \<lparr>sensor_id' := 0x0887, temperature_sensor' := Some [Num 1], failed := True,
         timeouts := [50], bus_trace := [Read_Bytes 6]\<rparr>) \<and> sensor_id' (update (component SHTCX_TYPE_SHTC3 False (\<lambda>k. k \<noteq> 2) (\<lambda>k. None)
        \<lparr>sensor_id' := 0x0887, temperature_sensor' := Some [Num 1], failed := True,
         timeouts := [50], bus_trace := [Read_Bytes 6]\<rparr>)) = sensor_id' (component SHTCX_TYPE_SHTC3 False (\<lambda>k. k \<noteq> 2) (\<lambda>k. None)
        \<lparr>sensor_id' := 0x0887, temperature_sensor' := Some [Num 1], failed := True,
         timeouts := [50], bus_trace := [Read_Bytes 6]\<rparr>) \<and>
   (case update_completion (component SHTCX_TYPE_SHTC3 False (\<lambda>k. k \<noteq> 2) (\<lambda>k. None)) of
      Inl e \<Rightarrow> False
    | Inr s' \<Rightarrow>
        (case update_completion (component SHTCX_TYPE_SHTC3 False (\<lambda>k. k \<noteq> 2) (\<lambda>k. None)
        \<lparr>sensor_id' := 0x0887, temperature_sensor' := Some [Num 1], failed := True,
         timeouts := [50], bus_trace := [Read_Bytes 6]\<rparr>) of
           Inl e \<Rightarrow> False
         | Inr t' \<Rightarrow>
             status_warning s' = status_warning t' \<and>
             drop (length (bus_trace (component SHTCX_TYPE_SHTC3 False (\<lambda>k. k \<noteq> 2) (\<lambda>k. None)))) (bus_trace s') =
               drop (length (bus_trace (component SHTCX_TYPE_SHTC3 False (\<lambda>k. k \<noteq> 2) (\<lambda>k. None)
        \<lparr>sensor_id' := 0x0887, temperature_sensor' := Some [Num 1], failed := True,
         timeouts := [50], bus_trace := [Read_Bytes 6]\<rparr>))) (bus_trace t'))) \<and>
   (case setup' (component SHTCX_TYPE_SHTC3 False (\<lambda>k. k \<noteq> 2) (\<lambda>k. None)) of
      Inl e \<Rightarrow> False
    | Inr s' \<Rightarrow> type' s' = type' (component SHTCX_TYPE_SHTC3 False (\<lambda>k. k \<noteq> 2) (\<lambda>k. None)) \<and> sensor_id' s' = sensor_id' (component SHTCX_TYPE_SHTC3 False (\<lambda>k. k \<noteq> 2) (\<lambda>k. None)))"
proof -
  let ?s = "(component SHTCX_TYPE_SHTC3 False (\<lambda>k. k \<noteq> 2) (\<lambda>k. None))"
  let ?t = "(component SHTCX_TYPE_SHTC3 False (\<lambda>k. k \<noteq> 2) (\<lambda>k. None)
        \<lparr>sensor_id' := 0x0887, temperature_sensor' := Some [Num 1], failed := True,
         timeouts := [50], bus_trace := [Read_Bytes 6]\<rparr>)"
  have p: "status_warning ?s = status_warning ?t \<and> type' ?s = type' ?t \<and>
      write_result ?s (poll_index ?s) = write_result ?t (poll_index ?t)"
    by (simp add: component_def poll_index_def)
  have q: "type' ?s = type' ?t \<and>
      read_words 2 (read_result ?s (bus_count ?s)) = read_words 2 (read_result ?t (bus_count ?t))"
    by (simp add: component_def)
  have r: "\<not> write_result ?s (bus_count ?s + 2)"
    by (simp add: component_def)
  have d: "timeouts ?s \<noteq> timeouts ?t" "sensor_id' ?s \<noteq> sensor_id' ?t" "failed ?s \<noteq> failed ?t"
    by (simp_all add: component_def)
  note w = identity_is_write_once [of ?s ?t]
  note w' = identity_is_write_once [of ?t ?t]
  have u: "status_warning (update ?s) = status_warning (update ?t)"
    "drop (length (bus_trace ?s)) (bus_trace (update ?s)) =
       drop (length (bus_trace ?t)) (bus_trace (update ?t))"
    "drop (length (timeouts ?s)) (timeouts (update ?s)) =
       drop (length (timeouts ?t)) (timeouts (update ?t))"
    using w p by blast+
  have k: "type' (update ?t) = type' ?t" "sensor_id' (update ?t) = sensor_id' ?t"
    using w' by blast+
  have c: "case update_completion ?s of
      Inl e \<Rightarrow> False
    | Inr s' \<Rightarrow>
        (case update_completion ?t of
           Inl e \<Rightarrow> False
         | Inr t' \<Rightarrow>
             status_warning s' = status_warning t' \<and>
             drop (length (bus_trace ?s)) (bus_trace s') =
               drop (length (bus_trace ?t)) (bus_trace t'))"
  proof -
    from w q have "case update_completion ?s of
         Inl e \<Rightarrow> False
       | Inr s' \<Rightarrow>
           (case update_completion ?t of
              Inl e \<Rightarrow> False
            | Inr t' \<Rightarrow>
                status_warning s' = status_warning t' \<and>
                drop (length (bus_trace ?s)) (bus_trace s') =
                  drop (length (bus_trace ?t)) (bus_trace t') \<and>
                bus_count s' - bus_count ?s = bus_count t' - bus_count ?t \<and>
                (\<exists>tv hv.
                   temperature_sensor' s' = map_option (\<lambda>p. p @ tv) (temperature_sensor' ?s) \<and>
                   temperature_sensor' t' = map_option (\<lambda>p. p @ tv) (temperature_sensor' ?t) \<and>
                   humidity_sensor' s' = map_option (\<lambda>p. p @ hv) (humidity_sensor' ?s) \<and>
                   humidity_sensor' t' = map_option (\<lambda>p. p @ hv) (humidity_sensor' ?t)))"
      by blast
    then show ?thesis
      by (cases "update_completion ?s"; cases "update_completion ?t") simp_all
  qed
  have e: "case setup' ?s of
      Inl e \<Rightarrow> False
    | Inr s' \<Rightarrow> type' s' = type' ?s \<and> sensor_id' s' = sensor_id' ?s"
  proof -
    from w have "case setup' ?s of
      Inl e \<Rightarrow> False
    | Inr s' \<Rightarrow>
        (\<not> write_result ?s (bus_count ?s + 2) \<or>
         read_words 1 (read_result ?s (bus_count ?s + 3)) = None \<longrightarrow>
         type' s' = type' ?s \<and> sensor_id' s' = sensor_id' ?s)"
      by blast
    with r show ?thesis
      by (cases "setup' ?s") simp_all
  qed
  from p q r d u k c e show ?thesis
    by blast
qed

end
